theory Spec2Isabelle
  imports Complex_Main "HOL-Library.Word" "HOL-Library.Char_ord" "HOL-Library.List_Lexorder"
begin

section \<open>Data model\<close>

text \<open>
  The script \<^verbatim>\<open>taxonomic_stats.py\<close> works on pandas data frames. A frame is modelled as
  its list of column names and its list of rows, a row giving the cell of every column.

  A cell is what \<^verbatim>\<open>read_csv\<close> leaves in a column: the missing value \<^verbatim>\<open>NaN\<close>, a text (a
  column of dtype \<^verbatim>\<open>object\<close>), or a number. A number is an \<^verbatim>\<open>int64\<close>, a finite
  \<^verbatim>\<open>float64\<close> given by its exact value (every finite double is a rational number), or one of
  the two infinities of \<^verbatim>\<open>float64\<close>. The integers are 64-bit words: \<open>+\<close> wraps as the
  \<^verbatim>\<open>int64\<close> sum of pandas does, and \<open>sint\<close> reads the signed value.
\<close>

datatype number = I64 "64 word" | F64 rat | PInf | NInf

datatype cell = NaN | Str string | Num number

type_synonym row = "string \<Rightarrow> cell"

record frame =
  columns :: "string list"
  rows :: "row list"

section \<open>Effects: the environment, the trace, the outcome\<close>

text \<open>
  \<^verbatim>\<open>file_path: str | StringIO\<close>; the script also handles an argument of any other type.
  What a stream holds is known to \<^verbatim>\<open>read_csv\<close> only.
\<close>

datatype source = Path string | StringIO | Other

text \<open>The exceptions that the library calls of the script raise.\<close>

datatype exn = ParserError | IntCastingNaNError | ValueError | KeyError | OSError

text \<open>The messages of the script's \<^verbatim>\<open>logging\<close> calls, one constructor per call.\<close>

datatype message =
    FileNotFound string
  | InvalidInput
  | InvalidFileFormat
  | DataLoaded
  | ErrorWhileReading exn
  | SummaryCalculated
  | ErrorCalculating exn
  | ResultsSaved string
  | ErrorSaving exn
  | ChartSaved string
  | ErrorChart exn

text \<open>
  What a call does besides returning: the log entries it emits, and its call of
  \<^verbatim>\<open>pd.read_csv\<close>, in the order they happen.
\<close>

datatype event = CallReadCsv source | LogError message | LogInfo message

text \<open>
  A call either returns a value or ends the process: \<^verbatim>\<open>sys.exit(n)\<close> raises
  \<^verbatim>\<open>SystemExit\<close>, which \<^verbatim>\<open>except Exception\<close> does not catch.
\<close>

datatype 'a outcome = Return 'a | Exit nat

text \<open>
  What the script takes from its libraries and from the file system is a parameter of the
  model:
  \<^item> \<open>path_exists\<close>: \<^verbatim>\<open>os.path.exists\<close>;
  \<^item> \<open>read_csv\<close>: \<^verbatim>\<open>pd.read_csv\<close>, the parsed frame or the exception raised;
  \<^item> \<open>str_to_numeric\<close>: what \<^verbatim>\<open>pd.to_numeric(..., errors="coerce")\<close> makes of a text
    cell, \<open>None\<close> where the text is no number;
  \<^item> \<open>cast_out_of_range\<close>: the \<^verbatim>\<open>int64\<close> that the cast of a finite double outside the
    \<^verbatim>\<open>int64\<close> range yields (the C cast is platform-defined there; numpy raises nothing);
  \<^item> \<open>group_mean\<close>, \<open>round2\<close>: the \<^verbatim>\<open>float64\<close> mean of a group's counts and
    \<^verbatim>\<open>Series.round(2)\<close> on one value. Their floating-point arithmetic is not modelled;
  \<^item> \<open>can_write\<close>: whether writing a file at a path succeeds.
\<close>

record env =
  path_exists :: "string \<Rightarrow> bool"
  read_csv :: "source \<Rightarrow> exn + frame"
  str_to_numeric :: "string \<Rightarrow> number option"
  cast_out_of_range :: "rat \<Rightarrow> 64 word"
  group_mean :: "64 word list \<Rightarrow> rat"
  round2 :: "rat \<Rightarrow> rat"
  can_write :: "string \<Rightarrow> bool"

section \<open>The Loader/Validator: \<^verbatim>\<open>read_data\<close>\<close>

text \<open>\<^verbatim>\<open>required_columns = {"species", "phylum", "count"}\<close>\<close>

definition required_columns :: "string list" where
  "required_columns = [''species'', ''phylum'', ''count'']"

text \<open>\<^verbatim>\<open>df.dropna(subset=cols)\<close>: the rows with no missing value in the columns \<open>cols\<close>.\<close>

definition dropna :: "string list \<Rightarrow> frame \<Rightarrow> frame" where
  "dropna cols df = df\<lparr>rows := filter (\<lambda>r. list_all (\<lambda>c. r c \<noteq> NaN) cols) (rows df)\<rparr>"

text \<open>
  \<^verbatim>\<open>pd.to_numeric(df["count"], errors="coerce")\<close> on one cell: a number stays, a text is
  parsed, and a text that is no number becomes \<^verbatim>\<open>NaN\<close>.
\<close>

fun to_numeric :: "env \<Rightarrow> cell \<Rightarrow> cell" where
  "to_numeric e NaN = NaN"
| "to_numeric e (Num n) = Num n"
| "to_numeric e (Str s) = (case str_to_numeric e s of None \<Rightarrow> NaN | Some n \<Rightarrow> Num n)"

text \<open>\<^verbatim>\<open>df["count"] = pd.to_numeric(df["count"], errors="coerce")\<close>\<close>

definition coerce_count :: "env \<Rightarrow> frame \<Rightarrow> frame" where
  "coerce_count e df =
     df\<lparr>rows := map (\<lambda>r. r(''count'' := to_numeric e (r ''count''))) (rows df)\<rparr>"

text \<open>The integer part of a rational: rounding toward zero, as the cast of a double does.\<close>

definition truncate_toward_zero :: "rat \<Rightarrow> int" where
  "truncate_toward_zero q = (if 0 \<le> q then \<lfloor>q\<rfloor> else \<lceil>q\<rceil>)"

definition in_int64_range :: "int \<Rightarrow> bool" where
  "in_int64_range z \<longleftrightarrow> - (2 ^ 63) \<le> z \<and> z < 2 ^ 63"

text \<open>
  \<^verbatim>\<open>astype(int)\<close> on one cell. An \<^verbatim>\<open>int64\<close> stays. A finite double is truncated. On a
  missing value or an infinity pandas raises \<^verbatim>\<open>IntCastingNaNError\<close> ("Cannot convert
  non-finite values (NA or inf) to integer"). A text cannot reach the cast in
  \<^verbatim>\<open>read_data\<close> (see \<open>to_numeric_no_text\<close>); on a text that is no integer literal
  \<^verbatim>\<open>astype(int)\<close> raises \<^verbatim>\<open>ValueError\<close>.
\<close>

fun astype_int :: "env \<Rightarrow> cell \<Rightarrow> exn + cell" where
  "astype_int e (Num (I64 w)) = Inr (Num (I64 w))"
| "astype_int e (Num (F64 q)) =
     Inr (Num (I64 (if in_int64_range (truncate_toward_zero q)
                    then word_of_int (truncate_toward_zero q)
                    else cast_out_of_range e q)))"
| "astype_int e (Num PInf) = Inl IntCastingNaNError"
| "astype_int e (Num NInf) = Inl IntCastingNaNError"
| "astype_int e NaN = Inl IntCastingNaNError"
| "astype_int e (Str s) = Inl ValueError"

text \<open>
  \<^verbatim>\<open>df["count"] = df["count"].astype(int)\<close>: the cast of the whole column raises when the
  cast of one of its cells does.
\<close>

fun astype_count :: "env \<Rightarrow> row list \<Rightarrow> exn + row list" where
  "astype_count e [] = Inr []"
| "astype_count e (r # rs) =
     (case astype_int e (r ''count'') of
        Inl x \<Rightarrow> Inl x
      | Inr v \<Rightarrow>
          (case astype_count e rs of
             Inl x \<Rightarrow> Inl x
           | Inr rs' \<Rightarrow> Inr (r(''count'' := v) # rs')))"

text \<open>
  Lines 75 to 78 of the script, the row-level cleaning:
  \<^verbatim>\<open>
  df = df.dropna(subset=list(required_columns))
  df["count"] = pd.to_numeric(df["count"], errors="coerce")
  df = df.dropna(subset=["count"])
  df["count"] = df["count"].astype(int)
  \<close>
\<close>

definition clean :: "env \<Rightarrow> frame \<Rightarrow> exn + frame" where
  "clean e df =
     (let df1 = dropna required_columns df;
          df2 = coerce_count e df1;
          df3 = dropna [''count''] df2
      in case astype_count e (rows df3) of
           Inl x \<Rightarrow> Inl x
         | Inr rs \<Rightarrow> Inr (df3\<lparr>rows := rs\<rparr>))"

text \<open>
  Lines 61 to 85: parsing, the schema check, the cleaning. Every exception raised on the
  way is caught by \<^verbatim>\<open>except Exception\<close>, logged, and ends the process with code 1.
\<close>

definition parse_validate_clean :: "env \<Rightarrow> source \<Rightarrow> event list \<times> frame outcome" where
  "parse_validate_clean e file_path =
     (case read_csv e file_path of
        Inl x \<Rightarrow> ([CallReadCsv file_path, LogError (ErrorWhileReading x)], Exit 1)
      | Inr df \<Rightarrow>
          if \<not> set required_columns \<subseteq> set (columns df)
          then ([CallReadCsv file_path, LogError InvalidFileFormat], Exit 1)
          else (case clean e df of
                  Inl x \<Rightarrow> ([CallReadCsv file_path, LogError (ErrorWhileReading x)], Exit 1)
                | Inr df' \<Rightarrow> ([CallReadCsv file_path, LogInfo DataLoaded], Return df')))"

text \<open>\<^verbatim>\<open>read_data(file_path)\<close>, lines 45 to 85.\<close>

definition read_data :: "env \<Rightarrow> source \<Rightarrow> event list \<times> frame outcome" where
  "read_data e file_path =
     (case file_path of
        Path p \<Rightarrow>
          if \<not> path_exists e p then ([LogError (FileNotFound p)], Exit 1)
          else parse_validate_clean e file_path
      | StringIO \<Rightarrow> parse_validate_clean e file_path
      | Other \<Rightarrow> ([LogError InvalidInput], Exit 1))"

section \<open>The Aggregator: \<^verbatim>\<open>calculate_summary_statistics\<close>\<close>

text \<open>
  The Aggregator is modelled on the frames the pipeline hands to it, the cleaned table:
  the \<^verbatim>\<open>count\<close> column is \<^verbatim>\<open>int64\<close>, and the \<^verbatim>\<open>phylum\<close> column has one dtype. Its
  values are of a type \<open>'k\<close> with the order in which pandas sorts them: \<open>string\<close> for a
  column of text (dtype \<^verbatim>\<open>object\<close>, which \<^verbatim>\<open>read_csv\<close> yields unless every field is a
  number), \<open>int\<close> for a column of integers (\<^verbatim>\<open>int64\<close>, read by its signed value, which
  \<^verbatim>\<open>read_csv\<close> yields when every phylum of the file is an integer literal). A row of the
  cleaned table is an observation, a row of the summary table has the columns
  \<^verbatim>\<open>phylum\<close>, \<^verbatim>\<open>total_species_count\<close> and \<^verbatim>\<open>average_species_count\<close>. Both have the
  column \<^verbatim>\<open>phylum\<close>.
\<close>

record 'k keyed =
  phylum :: 'k

record 'k observation = "'k keyed" +
  species :: string
  count :: "64 word"

record 'k summary_row = "'k keyed" +
  total_species_count :: "64 word"
  average_species_count :: rat

text \<open>
  A row of the cleaned frame as an observation, when its cells have these types: with a
  text phylum, and with an integer phylum.
\<close>

definition observation_of :: "row \<Rightarrow> string observation option" where
  "observation_of r =
     (case (r ''species'', r ''phylum'', r ''count'') of
        (Str s, Str p, Num (I64 c)) \<Rightarrow> Some \<lparr>phylum = p, species = s, count = c\<rparr>
      | _ \<Rightarrow> None)"

definition numeric_observation_of :: "row \<Rightarrow> int observation option" where
  "numeric_observation_of r =
     (case (r ''species'', r ''phylum'', r ''count'') of
        (Str s, Num (I64 p), Num (I64 c)) \<Rightarrow> Some \<lparr>phylum = sint p, species = s, count = c\<rparr>
      | _ \<Rightarrow> None)"

text \<open>
  \<^verbatim>\<open>df.groupby("phylum", as_index=False)\<close> first numbers the keys in the order in which
  they are first seen (the accumulator \<open>seen\<close> holds the keys found so far), and, as
  \<^verbatim>\<open>sort=True\<close> is the default, then sorts them. Python compares \<^verbatim>\<open>str\<close> by code points, that
  is lexicographically; the order \<open><\<close> on \<open>string\<close> is the lexicographic order of the
  lists of bytes, which on UTF-8 text is the same order. Integers are sorted by their value.
\<close>

fun uniques :: "'k list \<Rightarrow> 'k list \<Rightarrow> 'k list" where
  "uniques seen [] = seen"
| "uniques seen (k # ks) = uniques (if k \<in> set seen then seen else seen @ [k]) ks"

definition factorize :: "'k list \<Rightarrow> 'k list" where
  "factorize ks = uniques [] ks"

definition group_keys :: "('k::linorder) observation list \<Rightarrow> 'k list" where
  "group_keys obs = sort (factorize (map phylum obs))"

text \<open>
  The aggregation \<^verbatim>\<open>("count", "sum")\<close> is one pass over the rows that adds each count to
  the accumulator of its group, starting from zero, in \<^verbatim>\<open>int64\<close>. The aggregation
  \<^verbatim>\<open>("count", "mean")\<close> is computed in \<^verbatim>\<open>float64\<close> from the counts of the group, taken
  in row order.
\<close>

definition group_sum :: "'k observation list \<Rightarrow> 'k \<Rightarrow> 64 word" where
  "group_sum obs = fold (\<lambda>ob acc. acc(phylum ob := acc (phylum ob) + count ob)) obs (\<lambda>k. 0)"

definition group_values :: "'k observation list \<Rightarrow> 'k \<Rightarrow> 64 word list" where
  "group_values obs = fold (\<lambda>ob acc. acc(phylum ob := acc (phylum ob) @ [count ob])) obs (\<lambda>k. [])"

text \<open>
  \<^verbatim>\<open>
  df.groupby("phylum", as_index=False).agg(
      total_species_count=("count", "sum"),
      average_species_count=("count", "mean"))
  \<close>
\<close>

definition groupby_agg :: "env \<Rightarrow> ('k::linorder) observation list \<Rightarrow> 'k summary_row list" where
  "groupby_agg e obs =
     map (\<lambda>k. \<lparr>phylum = k,
               total_species_count = group_sum obs k,
               average_species_count = group_mean e (group_values obs k)\<rparr>)
         (group_keys obs)"

text \<open>\<^verbatim>\<open>summary["average_species_count"] = summary["average_species_count"].round(2)\<close>\<close>

definition round_average :: "env \<Rightarrow> 'k summary_row list \<Rightarrow> 'k summary_row list" where
  "round_average e summary =
     map (\<lambda>r. r\<lparr>average_species_count := round2 e (average_species_count r)\<rparr>) summary"

text \<open>
  \<^verbatim>\<open>calculate_summary_statistics(df)\<close>, lines 87 to 110, as a function of the value of its
  argument. On a cleaned table none of the pandas calls raises, so the handler of line 108
  is not entered.
\<close>

definition calculate_summary_statistics ::
  "env \<Rightarrow> ('k::linorder) observation list \<Rightarrow> event list \<times> 'k summary_row list outcome" where
  "calculate_summary_statistics e df =
     (let summary = groupby_agg e df;
          summary = round_average e summary
      in ([LogInfo SummaryCalculated], Return summary))"

section \<open>The Sink: \<^verbatim>\<open>save_results\<close> and \<^verbatim>\<open>generate_bar_chart\<close>\<close>

text \<open>
  \<^verbatim>\<open>df.to_csv(output_file, index=False)\<close> writes the header and then one record per row of
  the frame, in the order of the frame. \<^verbatim>\<open>plt.bar(df["phylum"], df["total_species_count"])\<close>
  draws one bar per row, labelled with the phylum, in the order of the frame. The files are
  kept as their records and bars, not as bytes.
\<close>

datatype 'k file_content =
    Csv "string list" "'k summary_row list"
  | Chart "('k \<times> 64 word) list"

definition to_csv :: "'k summary_row list \<Rightarrow> 'k file_content" where
  "to_csv df = Csv [''phylum'', ''total_species_count'', ''average_species_count''] df"

definition bar :: "'k summary_row list \<Rightarrow> 'k file_content" where
  "bar df = Chart (zip (map phylum df) (map total_species_count df))"

definition save_results ::
  "env \<Rightarrow> (string \<rightharpoonup> 'k file_content) \<Rightarrow> 'k summary_row list \<Rightarrow> string
     \<Rightarrow> (string \<rightharpoonup> 'k file_content) \<times> event list \<times> unit outcome" where
  "save_results e files df output_file =
     (if can_write e output_file
      then (files(output_file \<mapsto> to_csv df), [LogInfo (ResultsSaved output_file)], Return ())
      else (files, [LogError (ErrorSaving OSError)], Exit 1))"

definition generate_bar_chart ::
  "env \<Rightarrow> (string \<rightharpoonup> 'k file_content) \<Rightarrow> 'k summary_row list \<Rightarrow> string
     \<Rightarrow> (string \<rightharpoonup> 'k file_content) \<times> event list \<times> unit outcome" where
  "generate_bar_chart e files df output_image =
     (if can_write e output_image
      then (files(output_image \<mapsto> bar df), [LogInfo (ChartSaved output_image)], Return ())
      else (files, [LogError (ErrorChart OSError)], Exit 1))"

section \<open>Objects: the argument of \<^verbatim>\<open>calculate_summary_statistics\<close> and its result\<close>

text \<open>
  Python passes a frame by reference, and line 105 assigns to a column of a frame in
  place. To say which frame that assignment changes, the frames live in a heap: a list of
  objects, an address being an index into it. \<^verbatim>\<open>groupby(...).agg(...)\<close> builds a new frame,
  allocated at the end of the heap; the assignment of line 105 updates the object at the
  address held by the variable \<^verbatim>\<open>summary\<close>. A summary table passed as the argument has no
  column \<^verbatim>\<open>count\<close>: \<^verbatim>\<open>agg\<close> raises \<^verbatim>\<open>KeyError\<close>, which line 108 catches. An address
  outside the heap names no object; Python has no such reference, and the model treats it
  like an argument that is no cleaned table.
\<close>

datatype 'k obj = CleanedTable "'k observation list" | SummaryTable "'k summary_row list"

definition calculate_summary_statistics_heap ::
  "env \<Rightarrow> ('k::linorder) obj list \<Rightarrow> nat \<Rightarrow> 'k obj list \<times> event list \<times> nat outcome" where
  "calculate_summary_statistics_heap e h df =
     (if df < length h
      then (case h ! df of
              CleanedTable obs \<Rightarrow>
                (let summary = length h;
                     h1 = h @ [SummaryTable (groupby_agg e obs)];
                     h2 = (case h1 ! summary of
                             SummaryTable rs \<Rightarrow> h1[summary := SummaryTable (round_average e rs)]
                           | CleanedTable os \<Rightarrow> h1)
                 in (h2, [LogInfo SummaryCalculated], Return summary))
            | SummaryTable rs \<Rightarrow> (h, [LogError (ErrorCalculating KeyError)], Exit 1))
      else (h, [LogError (ErrorCalculating KeyError)], Exit 1))"

section \<open>Notions used to state the properties\<close>

text \<open>The cells of a row in the three required columns.\<close>

definition cells :: "row \<Rightarrow> cell \<times> cell \<times> cell" where
  "cells r = (r ''species'', r ''phylum'', r ''count'')"

text \<open>The required cells of the rows a call returns.\<close>

fun returned_cells :: "frame outcome \<Rightarrow> (cell \<times> cell \<times> cell) list outcome" where
  "returned_cells (Return df) = Return (map cells (rows df))"
| "returned_cells (Exit n) = Exit n"

text \<open>
  The integer part of a number, where it has one that is an \<^verbatim>\<open>int64\<close>: the value of an
  integer, the truncation toward zero of a finite double.
\<close>

fun integer_part :: "number \<Rightarrow> int option" where
  "integer_part (I64 w) = Some (sint w)"
| "integer_part (F64 q) =
     (if in_int64_range (truncate_toward_zero q) then Some (truncate_toward_zero q) else None)"
| "integer_part PInf = None"
| "integer_part NInf = None"

text \<open>
  A row that the cleaning keeps: no required cell is missing, and the count is a number or
  a text that \<^verbatim>\<open>to_numeric\<close> reads as one.
\<close>

definition valid_row :: "env \<Rightarrow> row \<Rightarrow> bool" where
  "valid_row e r \<longleftrightarrow>
     r ''species'' \<noteq> NaN \<and> r ''phylum'' \<noteq> NaN \<and> r ''count'' \<noteq> NaN \<and>
     to_numeric e (r ''count'') \<noteq> NaN"

text \<open>The observations with a given phylum, in their order.\<close>

definition observations_with :: "'k \<Rightarrow> 'k observation list \<Rightarrow> 'k observation list" where
  "observations_with k obs = filter (\<lambda>ob. phylum ob = k) obs"

text \<open>
  The sum of \<^verbatim>\<open>int64\<close> values as an integer, with no wrap-around, next to their sum
  \<open>sum_list\<close> in \<^verbatim>\<open>int64\<close>.
\<close>

definition exact_sum :: "64 word list \<Rightarrow> int" where
  "exact_sum ws = sum_list (map sint ws)"

text \<open>No row that the cleaning keeps has an infinite count.\<close>

definition no_infinite_count :: "env \<Rightarrow> frame \<Rightarrow> bool" where
  "no_infinite_count e df \<longleftrightarrow>
     list_all (\<lambda>r. \<not> (valid_row e r \<and> to_numeric e (r ''count'') \<in> {Num PInf, Num NInf}))
       (rows df)"

text \<open>
  The mean of \<^verbatim>\<open>int64\<close> values computed exactly: their exact sum over their number. The
  \<^verbatim>\<open>float64\<close> mean of pandas is this number up to the rounding of \<^verbatim>\<open>float64\<close>.
\<close>

definition exact_mean :: "64 word list \<Rightarrow> rat" where
  "exact_mean ws = of_int (exact_sum ws) / of_nat (length ws)"

text \<open>
  The text of an integer, as \<^verbatim>\<open>str\<close> and \<^verbatim>\<open>to_csv\<close> write it: its decimal digits, after a
  minus sign when it is negative.
\<close>

fun decimal :: "nat \<Rightarrow> string" where
  "decimal n =
     (if n < 10 then [''0123456789'' ! n]
      else decimal (n div 10) @ [''0123456789'' ! (n mod 10)])"

definition phylum_string :: "int \<Rightarrow> string" where
  "phylum_string z = (if z < 0 then CHR ''-'' # decimal (nat (- z)) else decimal (nat z))"

text \<open>The source is a text stream, or the path of a file that exists.\<close>

fun source_found :: "env \<Rightarrow> source \<Rightarrow> bool" where
  "source_found e (Path p) = path_exists e p"
| "source_found e StringIO = True"
| "source_found e Other = False"

text \<open>The records of a written table and the labels of a chart's bars, in their order.\<close>

fun csv_records :: "'k file_content \<Rightarrow> 'k summary_row list" where
  "csv_records (Csv header rs) = rs"
| "csv_records (Chart bs) = []"

fun chart_labels :: "'k file_content \<Rightarrow> 'k list" where
  "chart_labels (Chart bs) = map fst bs"
| "chart_labels (Csv header rs) = []"

text \<open>The phyla of the records of a written table, in their order.\<close>

definition csv_phyla :: "'k file_content \<Rightarrow> 'k list" where
  "csv_phyla f = map phylum (csv_records f)"

section \<open>Example data\<close>

text \<open>
  An environment for the examples. Its \<open>str_to_numeric\<close> reads the unsigned decimal
  integer literals and nothing else; its \<open>cast_out_of_range\<close> is the value numpy yields on
  x86-64; its mean and rounding are computed exactly. The general theorems below do not
  depend on these choices: they hold for every environment, the one on the average for
  every environment whose mean is the exact mean.
\<close>

definition is_digit :: "char \<Rightarrow> bool" where
  "is_digit c \<longleftrightarrow> CHR ''0'' \<le> c \<and> c \<le> CHR ''9''"

definition digits_to_number :: "string \<Rightarrow> number option" where
  "digits_to_number s =
     (if s \<noteq> [] \<and> list_all is_digit s
      then Some (I64 (of_nat (fold (\<lambda>c n. 10 * n + (of_char c - 48)) s 0)))
      else None)"

definition exact_round2 :: "rat \<Rightarrow> rat" where
  "exact_round2 q = of_int (round (q * 100)) / 100"

definition example_env :: env where
  "example_env =
     \<lparr>path_exists = (\<lambda>p. p = ''taxonomic_data.csv''),
      read_csv = (\<lambda>src. Inl ParserError),
      str_to_numeric = digits_to_number,
      cast_out_of_range = (\<lambda>q. - (2 ^ 63)),
      group_mean = exact_mean,
      round2 = exact_round2,
      can_write = (\<lambda>p. True)\<rparr>"

text \<open>The example environment, with \<^verbatim>\<open>read_csv\<close> parsing its input to the frame \<open>df\<close>.\<close>

definition parsing_to :: "frame \<Rightarrow> env" where
  "parsing_to df = example_env\<lparr>read_csv := (\<lambda>src. Inr df)\<rparr>"

definition csv_row :: "cell \<Rightarrow> cell \<Rightarrow> cell \<Rightarrow> row" where
  "csv_row s p c = (\<lambda>col. NaN)(''species'' := s, ''phylum'' := p, ''count'' := c)"

text \<open>
  The four tables of \<^verbatim>\<open>test_taxonomic_stats.py\<close> as \<^verbatim>\<open>read_csv\<close> parses them. A column of
  integers is \<^verbatim>\<open>int64\<close>; with an empty field it is \<^verbatim>\<open>float64\<close>; with a text that is no number
  it is \<^verbatim>\<open>object\<close> and holds the texts.
\<close>

definition valid_data :: frame where
  "valid_data =
     \<lparr>columns = [''species'', ''phylum'', ''count''],
      rows = [csv_row (Str ''SpeciesA'') (Str ''Firmicutes'') (Num (I64 120)),
              csv_row (Str ''SpeciesB'') (Str ''Firmicutes'') (Num (I64 80)),
              csv_row (Str ''SpeciesC'') (Str ''Bacteroidetes'') (Num (I64 200)),
              csv_row (Str ''SpeciesD'') (Str ''Bacteroidetes'') (Num (I64 50)),
              csv_row (Str ''SpeciesE'') (Str ''Proteobacteria'') (Num (I64 300))]\<rparr>"

definition invalid_data_missing_columns :: frame where
  "invalid_data_missing_columns =
     \<lparr>columns = [''species'', ''count''],
      rows = [(\<lambda>col. NaN)(''species'' := Str ''SpeciesA'', ''count'' := Num (I64 120)),
              (\<lambda>col. NaN)(''species'' := Str ''SpeciesB'', ''count'' := Num (I64 80))]\<rparr>"

definition invalid_data_missing_values :: frame where
  "invalid_data_missing_values =
     \<lparr>columns = [''species'', ''phylum'', ''count''],
      rows = [csv_row (Str ''SpeciesA'') (Str ''Firmicutes'') NaN,
              csv_row (Str ''SpeciesB'') NaN (Num (F64 80)),
              csv_row (Str ''SpeciesC'') (Str ''Bacteroidetes'') (Num (F64 200))]\<rparr>"

definition invalid_data_type_values :: frame where
  "invalid_data_type_values =
     \<lparr>columns = [''species'', ''phylum'', ''count''],
      rows = [csv_row (Str ''SpeciesA'') (Str ''Firmicutes'') (Str ''not_numeric''),
              csv_row (Str ''SpeciesB'') (Str ''Proteobacteria'') (Str ''80''),
              csv_row (Str ''SpeciesC'') (Str ''Bacteroidetes'') (Str ''200'')]\<rparr>"

text \<open>
  More tables. The first has a column besides the required ones, the second is the first
  without that column. In the third the
  count of one row is \<^verbatim>\<open>inf\<close>, which \<^verbatim>\<open>read_csv\<close> parses as the infinity of \<^verbatim>\<open>float64\<close>;
  the column is \<^verbatim>\<open>float64\<close>, its empty field is \<^verbatim>\<open>NaN\<close>. In the fourth the count is
  \<^verbatim>\<open>1e19\<close>, a double above the \<^verbatim>\<open>int64\<close> range. The last has counts with a fractional
  part.
\<close>

definition data_with_extra_column :: frame where
  "data_with_extra_column =
     \<lparr>columns = [''species'', ''phylum'', ''count'', ''habitat''],
      rows = [(csv_row (Str ''SpeciesA'') (Str ''Firmicutes'') (Num (I64 120)))
                (''habitat'' := Str ''soil''),
              (csv_row (Str ''SpeciesB'') NaN (Num (I64 80)))
                (''habitat'' := Str ''gut''),
              (csv_row (Str ''SpeciesC'') (Str ''Bacteroidetes'') (Num (I64 200)))
                (''habitat'' := NaN)]\<rparr>"

definition data_without_extra_column :: frame where
  "data_without_extra_column =
     \<lparr>columns = [''species'', ''phylum'', ''count''],
      rows = [csv_row (Str ''SpeciesA'') (Str ''Firmicutes'') (Num (I64 120)),
              csv_row (Str ''SpeciesB'') NaN (Num (I64 80)),
              csv_row (Str ''SpeciesC'') (Str ''Bacteroidetes'') (Num (I64 200))]\<rparr>"

definition data_with_infinite_count :: frame where
  "data_with_infinite_count =
     \<lparr>columns = [''species'', ''phylum'', ''count''],
      rows = [csv_row (Str ''SpeciesA'') (Str ''Firmicutes'') NaN,
              csv_row (Str ''SpeciesB'') (Str ''Proteobacteria'') (Num PInf),
              csv_row (Str ''SpeciesC'') (Str ''Bacteroidetes'') (Num (F64 200))]\<rparr>"

definition data_with_huge_count :: frame where
  "data_with_huge_count =
     \<lparr>columns = [''species'', ''phylum'', ''count''],
      rows = [csv_row (Str ''SpeciesA'') (Str ''Firmicutes'') (Num (F64 (10 ^ 19)))]\<rparr>"

definition data_with_fractional_count :: frame where
  "data_with_fractional_count =
     \<lparr>columns = [''species'', ''phylum'', ''count''],
      rows = [csv_row (Str ''SpeciesA'') (Str ''Firmicutes'') (Num (F64 (25 / 2))),
              csv_row (Str ''SpeciesB'') (Str ''Firmicutes'') (Num (F64 (- 7 / 4)))]\<rparr>"

text \<open>
  A table whose phylum column holds the integers 10 and 9: \<^verbatim>\<open>read_csv\<close> makes it an
  \<^verbatim>\<open>int64\<close> column. Its rows as observations.
\<close>

definition data_with_numeric_phylum :: frame where
  "data_with_numeric_phylum =
     \<lparr>columns = [''species'', ''phylum'', ''count''],
      rows = [csv_row (Str ''SpeciesA'') (Num (I64 10)) (Num (I64 5)),
              csv_row (Str ''SpeciesB'') (Num (I64 9)) (Num (I64 7))]\<rparr>"

definition numeric_phylum_observations :: "int observation list" where
  "numeric_phylum_observations =
     [\<lparr>phylum = 10, species = ''SpeciesA'', count = 5\<rparr>,
      \<lparr>phylum = 9, species = ''SpeciesB'', count = 7\<rparr>]"

text \<open>
  A cleaned table with two observations of one phylum whose counts, the greatest \<^verbatim>\<open>int64\<close>
  and 1, add up to \<open>2 ^ 63\<close>, one more than the greatest \<^verbatim>\<open>int64\<close>.
\<close>

definition overflowing_observations :: "string observation list" where
  "overflowing_observations =
     [\<lparr>phylum = ''Firmicutes'', species = ''SpeciesA'', count = 9223372036854775807\<rparr>,
      \<lparr>phylum = ''Firmicutes'', species = ''SpeciesB'', count = 1\<rparr>]"

text \<open>The cleaned table of \<open>valid_data\<close>, as observations.\<close>

definition valid_observations :: "string observation list" where
  "valid_observations =
     [\<lparr>phylum = ''Firmicutes'', species = ''SpeciesA'', count = 120\<rparr>,
      \<lparr>phylum = ''Firmicutes'', species = ''SpeciesB'', count = 80\<rparr>,
      \<lparr>phylum = ''Bacteroidetes'', species = ''SpeciesC'', count = 200\<rparr>,
      \<lparr>phylum = ''Bacteroidetes'', species = ''SpeciesD'', count = 50\<rparr>,
      \<lparr>phylum = ''Proteobacteria'', species = ''SpeciesE'', count = 300\<rparr>]"

section \<open>Properties of the Loader/Validator\<close>

lemmas loader_defs =
  read_data_def parse_validate_clean_def clean_def dropna_def coerce_count_def
  required_columns_def cells_def

lemmas example_defs =
  parsing_to_def example_env_def csv_row_def digits_to_number_def is_digit_def
  valid_data_def invalid_data_missing_columns_def invalid_data_missing_values_def
  invalid_data_type_values_def data_with_extra_column_def data_with_infinite_count_def
  data_with_huge_count_def data_with_fractional_count_def data_without_extra_column_def
  data_with_numeric_phylum_def

lemma list_all2_in_right:
  "list_all2 P xs ys \<Longrightarrow> y \<in> set ys \<Longrightarrow> \<exists>x \<in> set xs. P x y"
  by (induction rule: list_all2_induct) auto

lemma list_all2_in_left:
  "list_all2 P xs ys \<Longrightarrow> x \<in> set xs \<Longrightarrow> \<exists>y \<in> set ys. P x y"
  by (induction rule: list_all2_induct) auto

lemma sint_word_of_int_in_range:
  "in_int64_range z \<Longrightarrow> sint (word_of_int z :: 64 word) = z"
  by (simp add: in_int64_range_def signed_of_int signed_take_bit_int_eq_self)

lemma to_numeric_no_text: "to_numeric e c \<noteq> Str s"
  by (cases c) (auto split: option.splits)

lemma astype_int_Inr: "astype_int e c = Inr v \<Longrightarrow> \<exists>w. v = Num (I64 w)"
  by (induction e c rule: astype_int.induct) auto

lemma astype_count_Inr:
  "astype_count e rs = Inr rs' \<Longrightarrow>
   list_all2 (\<lambda>r r'. \<exists>v. astype_int e (r ''count'') = Inr v \<and> r' = r(''count'' := v)) rs rs'"
  by (induction rs arbitrary: rs') (auto split: sum.splits)

lemma astype_count_Inl:
  "astype_count e rs = Inl x \<Longrightarrow> \<exists>r \<in> set rs. astype_int e (r ''count'') = Inl x"
  by (induction rs) (auto split: sum.splits)

lemma astype_count_total:
  "list_all (\<lambda>r. \<exists>v. astype_int e (r ''count'') = Inr v) rs \<Longrightarrow>
   \<exists>rs'. astype_count e rs = Inr rs'"
  by (induction rs) (auto split: sum.splits)

text \<open>The rows that reach the cast of line 78, and their counts.\<close>

lemma clean_rows_before_cast:
  "rows (dropna [''count''] (coerce_count e (dropna required_columns df))) =
   map (\<lambda>r. r(''count'' := to_numeric e (r ''count''))) (filter (valid_row e) (rows df))"
  by (simp add: dropna_def coerce_count_def required_columns_def valid_row_def filter_map
      comp_def conj_ac cong: filter_cong)

text \<open>
  When the cleaning returns, it returns the valid rows of its input, in their order, each
  with its count cast.
\<close>

lemma clean_Inr:
  assumes "clean e df = Inr df'"
  shows "columns df' = columns df"
    and "list_all2
           (\<lambda>r r'. \<exists>v. astype_int e (to_numeric e (r ''count'')) = Inr v \<and> r' = r(''count'' := v))
           (filter (valid_row e) (rows df)) (rows df')"
proof -
  let ?df3 = "dropna [''count''] (coerce_count e (dropna required_columns df))"
  from assms obtain rs
    where rs: "astype_count e (rows ?df3) = Inr rs" and df': "df' = ?df3\<lparr>rows := rs\<rparr>"
    by (auto simp: clean_def Let_def split: sum.splits)
  show "columns df' = columns df"
    by (simp add: df' dropna_def coerce_count_def)
  from astype_count_Inr [OF rs]
  show "list_all2
          (\<lambda>r r'. \<exists>v. astype_int e (to_numeric e (r ''count'')) = Inr v \<and> r' = r(''count'' := v))
          (filter (valid_row e) (rows df)) (rows df')"
    by (simp add: df' clean_rows_before_cast list_all2_map1)
qed

lemma read_data_Return:
  assumes "read_data e src = (tr, Return df')"
  shows "\<exists>df. read_csv e src = Inr df \<and> source_found e src \<and>
           set required_columns \<subseteq> set (columns df) \<and> clean e df = Inr df' \<and>
           tr = [CallReadCsv src, LogInfo DataLoaded]"
  using assms
  by (cases src) (auto simp: read_data_def parse_validate_clean_def split: if_splits sum.splits)

text \<open>
  Claim C2. Whenever \<^verbatim>\<open>read_data\<close> returns a table (the source was found, it parsed and
  it has the required columns), every row of the returned table has a species, a phylum
  and a count that are not missing, and its count is an integer (an \<^verbatim>\<open>int64\<close>).
\<close>

theorem read_data_rows_are_observations:
  assumes "read_data e src = (tr, Return df')"
  shows "\<forall>r \<in> set (rows df').
           r ''species'' \<noteq> NaN \<and> r ''phylum'' \<noteq> NaN \<and> (\<exists>w. r ''count'' = Num (I64 w))"
proof
  fix r' assume r': "r' \<in> set (rows df')"
  from read_data_Return [OF assms] obtain df where c: "clean e df = Inr df'" by blast
  from list_all2_in_right [OF clean_Inr(2) [OF c] r']
  obtain r v where "r \<in> set (filter (valid_row e) (rows df))"
    and v: "astype_int e (to_numeric e (r ''count'')) = Inr v" and eq: "r' = r(''count'' := v)"
    by blast
  then have "valid_row e r" by simp
  moreover from astype_int_Inr [OF v] obtain w where "v = Num (I64 w)" ..
  ultimately
  show "r' ''species'' \<noteq> NaN \<and> r' ''phylum'' \<noteq> NaN \<and> (\<exists>w. r' ''count'' = Num (I64 w))"
    by (simp add: eq valid_row_def)
qed

text \<open>
  The table \<open>invalid_data_type_values\<close> of the tests: the call returns, the two rows with a
  numeric count are left, and they satisfy the invariant.
\<close>

theorem read_data_rows_are_observations_witness:
  "\<exists>df'. read_data (parsing_to invalid_data_type_values) StringIO =
            ([CallReadCsv StringIO, LogInfo DataLoaded], Return df') \<and>
          map cells (rows df') =
            [(Str ''SpeciesB'', Str ''Proteobacteria'', Num (I64 80)),
             (Str ''SpeciesC'', Str ''Bacteroidetes'', Num (I64 200))] \<and>
          list_all (\<lambda>r. r ''species'' \<noteq> NaN \<and> r ''phylum'' \<noteq> NaN \<and>
                        (\<exists>w. r ''count'' = Num (I64 w))) (rows df')"
proof -
  obtain df' where
    run: "read_data (parsing_to invalid_data_type_values) StringIO =
            ([CallReadCsv StringIO, LogInfo DataLoaded], Return df')"
    and out: "map cells (rows df') =
            [(Str ''SpeciesB'', Str ''Proteobacteria'', Num (I64 80)),
             (Str ''SpeciesC'', Str ''Bacteroidetes'', Num (I64 200))]"
    by (simp add: loader_defs example_defs)
  from read_data_rows_are_observations [OF run]
  have inv: "list_all (\<lambda>r. r ''species'' \<noteq> NaN \<and> r ''phylum'' \<noteq> NaN \<and>
                           (\<exists>w. r ''count'' = Num (I64 w))) (rows df')"
    unfolding list_all_iff .
  show ?thesis
    by (rule exI [of _ df']) (intro conjI run out inv)
qed

text \<open>
  A returned row whose species and phylum are text is an observation: the cleaned table is
  what the Aggregator is modelled on.
\<close>

lemma returned_row_is_observation:
  assumes "read_data e src = (tr, Return df')" and "r \<in> set (rows df')"
    and "r ''species'' = Str s" and "r ''phylum'' = Str p"
  shows "\<exists>c. observation_of r = Some \<lparr>phylum = p, species = s, count = c\<rparr>"
proof -
  from read_data_Return [OF assms(1)] obtain df where c: "clean e df = Inr df'" by blast
  from list_all2_in_right [OF clean_Inr(2) [OF c] assms(2)]
  obtain r0 v where v: "astype_int e (to_numeric e (r0 ''count'')) = Inr v"
    and eq: "r = r0(''count'' := v)"
    by blast
  from astype_int_Inr [OF v] obtain w where "v = Num (I64 w)" ..
  with eq assms(3,4) show ?thesis by (simp add: observation_of_def)
qed

text \<open>
  Claim C6. When the argument is a path and no file exists at it, \<^verbatim>\<open>read_data\<close> logs
  "File not found" and ends the process with exit code 1. \<^verbatim>\<open>read_csv\<close> is not called:
  the trace holds the log entry only, and the result is the same whatever \<^verbatim>\<open>read_csv\<close>
  of the environment would do.
\<close>

theorem read_data_missing_file:
  assumes "\<not> path_exists e p"
  shows "read_data e (Path p) = ([LogError (FileNotFound p)], Exit 1) \<and>
         list_all (\<lambda>ev. ev \<noteq> CallReadCsv (Path p)) (fst (read_data e (Path p)))"
  using assms by (simp add: read_data_def)

theorem read_data_missing_file_witness:
  "\<not> path_exists (parsing_to valid_data) ''no_such_file.csv'' \<and>
   read_data (parsing_to valid_data) (Path ''no_such_file.csv'') =
     ([LogError (FileNotFound ''no_such_file.csv'')], Exit 1)"
proof -
  have missing: "\<not> path_exists (parsing_to valid_data) ''no_such_file.csv''"
    by (simp add: example_defs)
  from read_data_missing_file [OF missing] missing show ?thesis by simp
qed

lemma astype_int_finite:
  "c \<noteq> NaN \<Longrightarrow> c \<notin> {Num PInf, Num NInf} \<Longrightarrow> (\<forall>s. c \<noteq> Str s) \<Longrightarrow> \<exists>v. astype_int e c = Inr v"
  by (induction e c rule: astype_int.induct) auto

text \<open>Where no kept row has an infinite count, the cast raises nothing and the cleaning returns.\<close>

lemma clean_total:
  assumes "no_infinite_count e df"
  shows "\<exists>df'. clean e df = Inr df'"
proof -
  let ?rs = "map (\<lambda>r. r(''count'' := to_numeric e (r ''count''))) (filter (valid_row e) (rows df))"
  have "list_all (\<lambda>r. \<exists>v. astype_int e (r ''count'') = Inr v) ?rs"
    unfolding list_all_iff
  proof
    fix r' assume "r' \<in> set ?rs"
    then obtain r where r: "r \<in> set (rows df)" "valid_row e r"
      and r': "r' = r(''count'' := to_numeric e (r ''count''))" by auto
    from assms r have "to_numeric e (r ''count'') \<notin> {Num PInf, Num NInf}"
      by (auto simp: no_infinite_count_def list_all_iff)
    moreover from r(2) have "to_numeric e (r ''count'') \<noteq> NaN" by (simp add: valid_row_def)
    ultimately show "\<exists>v. astype_int e (r' ''count'') = Inr v"
      by (simp add: r' astype_int_finite to_numeric_no_text)
  qed
  from astype_count_total [OF this] obtain rs where "astype_count e ?rs = Inr rs" ..
  then show ?thesis
    by (simp add: clean_def Let_def clean_rows_before_cast)
qed

lemma read_data_clean:
  assumes "source_found e src" and "read_csv e src = Inr df"
    and "set required_columns \<subseteq> set (columns df)"
  shows "read_data e src =
     (case clean e df of
        Inl x \<Rightarrow> ([CallReadCsv src, LogError (ErrorWhileReading x)], Exit 1)
      | Inr df' \<Rightarrow> ([CallReadCsv src, LogInfo DataLoaded], Return df'))"
  using assms by (cases src) (auto simp: read_data_def parse_validate_clean_def)

lemma astype_int_integer_part:
  "integer_part n = Some z \<Longrightarrow> astype_int e (Num n) = Inr (Num (I64 (word_of_int z)))"
  by (cases n) (auto split: if_splits)

lemma sint_in_range: "in_int64_range (sint (w :: 64 word))"
  using sint_ge [of w] sint_lt [of w] by (simp add: in_int64_range_def)

lemma integer_part_in_range: "integer_part n = Some z \<Longrightarrow> in_int64_range z"
  by (cases n) (auto split: if_splits simp: sint_in_range)

text \<open>
  Then \<^verbatim>\<open>read_data\<close> returns the valid rows of the parsed table, in their order, each with
  its count cast; the other rows are dropped.
\<close>

lemma read_data_returns_valid_rows:
  assumes "source_found e src" and "read_csv e src = Inr df"
    and "set required_columns \<subseteq> set (columns df)"
    and "no_infinite_count e df"
  shows "\<exists>df'. read_data e src = ([CallReadCsv src, LogInfo DataLoaded], Return df') \<and>
           columns df' = columns df \<and>
           list_all2
             (\<lambda>r r'. \<exists>v. astype_int e (to_numeric e (r ''count'')) = Inr v \<and> r' = r(''count'' := v))
             (filter (valid_row e) (rows df)) (rows df')"
proof -
  from clean_total [OF assms(4)] obtain df' where c: "clean e df = Inr df'" ..
  have "read_data e src = ([CallReadCsv src, LogInfo DataLoaded], Return df')"
    by (simp add: read_data_clean [OF assms(1-3)] c)
  with clean_Inr [OF c] show ?thesis by blast
qed

text \<open>
  Claim C3, amended. Take a parsed table with the required columns in which no row that
  the cleaning keeps has an infinite count. For every row of it whose species, phylum and
  count are not missing and whose count coerces to a number with an integer part in the
  \<^verbatim>\<open>int64\<close> range (an integer, or a finite double whose truncation toward zero is in the
  range), \<^verbatim>\<open>read_data\<close> returns a table, and the row is in it with its count replaced by
  that integer part.
\<close>

theorem valid_row_is_kept:
  assumes "source_found e src" and "read_csv e src = Inr df"
    and "set required_columns \<subseteq> set (columns df)"
    and "no_infinite_count e df"
    and "r \<in> set (rows df)"
    and "r ''species'' \<noteq> NaN" and "r ''phylum'' \<noteq> NaN" and "r ''count'' \<noteq> NaN"
    and "to_numeric e (r ''count'') = Num n" and "integer_part n = Some z"
  shows "\<exists>df'. read_data e src = ([CallReadCsv src, LogInfo DataLoaded], Return df') \<and>
           r(''count'' := Num (I64 (word_of_int z))) \<in> set (rows df') \<and>
           sint (word_of_int z :: 64 word) = z"
proof -
  from clean_total [OF assms(4)] obtain df' where c: "clean e df = Inr df'" ..
  have run: "read_data e src = ([CallReadCsv src, LogInfo DataLoaded], Return df')"
    by (simp add: read_data_clean [OF assms(1-3)] c)
  from assms have "r \<in> set (filter (valid_row e) (rows df))"
    by (simp add: valid_row_def)
  from list_all2_in_left [OF clean_Inr(2) [OF c] this]
  obtain r' v where r': "r' \<in> set (rows df')"
    and v: "astype_int e (to_numeric e (r ''count'')) = Inr v" and eq: "r' = r(''count'' := v)"
    by blast
  from v assms(9) astype_int_integer_part [OF assms(10), of e]
  have "v = Num (I64 (word_of_int z))" by simp
  with r' eq have "r(''count'' := Num (I64 (word_of_int z))) \<in> set (rows df')" by simp
  moreover have "sint (word_of_int z :: 64 word) = z"
    by (rule sint_word_of_int_in_range [OF integer_part_in_range [OF assms(10)]])
  ultimately show ?thesis using run by blast
qed


lemma truncate_examples:
  "truncate_toward_zero (- (7 / 4)) = - 1"
  "truncate_toward_zero (25 / 2) = 12"
  "truncate_toward_zero 200 = 200"
  "truncate_toward_zero 10000000000000000000 = 10000000000000000000"
  by (simp_all add: truncate_toward_zero_def ceiling_eq_iff floor_eq_iff)

text \<open>The counts 12.5 and -1.75 become 12 and -1.\<close>

theorem valid_row_is_kept_witness:
  "no_infinite_count (parsing_to data_with_fractional_count) data_with_fractional_count \<and>
   to_numeric (parsing_to data_with_fractional_count) (Num (F64 (- 7 / 4))) = Num (F64 (- 7 / 4)) \<and>
   integer_part (F64 (- 7 / 4)) = Some (- 1) \<and>
   (\<exists>df'. read_data (parsing_to data_with_fractional_count) StringIO =
            ([CallReadCsv StringIO, LogInfo DataLoaded], Return df') \<and>
          csv_row (Str ''SpeciesB'') (Str ''Firmicutes'') (Num (I64 (- 1))) \<in> set (rows df'))"
proof -
  let ?e = "parsing_to data_with_fractional_count"
  let ?r = "csv_row (Str ''SpeciesB'') (Str ''Firmicutes'') (Num (F64 (- 7 / 4)))"
  have found: "source_found ?e StringIO" by simp
  have parsed: "read_csv ?e StringIO = Inr data_with_fractional_count"
    by (simp add: parsing_to_def)
  have cols: "set required_columns \<subseteq> set (columns data_with_fractional_count)"
    by (simp add: required_columns_def data_with_fractional_count_def)
  have fin: "no_infinite_count ?e data_with_fractional_count"
    by (simp add: no_infinite_count_def data_with_fractional_count_def csv_row_def)
  have mem: "?r \<in> set (rows data_with_fractional_count)"
    by (simp add: data_with_fractional_count_def)
  have cellsr: "?r ''species'' \<noteq> NaN" "?r ''phylum'' \<noteq> NaN" "?r ''count'' \<noteq> NaN"
    by (simp_all add: csv_row_def)
  have num: "to_numeric ?e (?r ''count'') = Num (F64 (- 7 / 4))"
    by (simp add: csv_row_def)
  have ip: "integer_part (F64 (- 7 / 4)) = Some (- 1)"
    by (simp add: truncate_examples in_int64_range_def)
  from valid_row_is_kept [OF found parsed cols fin mem cellsr num ip]
  obtain df' where run: "read_data ?e StringIO = ([CallReadCsv StringIO, LogInfo DataLoaded], Return df')"
    and kept: "?r(''count'' := Num (I64 (word_of_int (- 1)))) \<in> set (rows df')"
    by blast
  have "?r(''count'' := Num (I64 (word_of_int (- 1)))) =
        csv_row (Str ''SpeciesB'') (Str ''Firmicutes'') (Num (I64 (- 1)))"
    by (simp add: csv_row_def)
  with kept have "csv_row (Str ''SpeciesB'') (Str ''Firmicutes'') (Num (I64 (- 1))) \<in> set (rows df')"
    by simp
  with run fin ip show ?thesis by auto
qed

text \<open>
  As the claim is stated it fails in two ways. In \<open>data_with_infinite_count\<close> the row of
  SpeciesC has no missing field and the count 200.0, and the row of SpeciesB the count
  \<^verbatim>\<open>inf\<close>, which \<^verbatim>\<open>to_numeric\<close> leaves as it is, a \<^verbatim>\<open>float64\<close>; the cast of line 78 raises
  on the infinity, line 83 catches the exception, and the process ends with code 1: there
  is no cleaned table for either row to appear in. In \<open>data_with_huge_count\<close> the count is
  the double \<^verbatim>\<open>1e19\<close>; the row is returned, and its count is the \<^verbatim>\<open>int64\<close> that the cast
  yields out of range (on x86-64 the least \<^verbatim>\<open>int64\<close>), not the integer part of \<^verbatim>\<open>1e19\<close>.
\<close>

theorem valid_row_is_kept_counterexample:
  "csv_row (Str ''SpeciesC'') (Str ''Bacteroidetes'') (Num (F64 200))
     \<in> set (rows data_with_infinite_count) \<and>
   to_numeric (parsing_to data_with_infinite_count) (Num (F64 200)) = Num (F64 200) \<and>
   to_numeric (parsing_to data_with_infinite_count) (Num PInf) = Num PInf \<and>
   read_data (parsing_to data_with_infinite_count) StringIO =
     ([CallReadCsv StringIO, LogError (ErrorWhileReading IntCastingNaNError)], Exit 1) \<and>
   returned_cells (snd (read_data (parsing_to data_with_huge_count) StringIO)) =
     Return [(Str ''SpeciesA'', Str ''Firmicutes'', Num (I64 (- (2 ^ 63))))] \<and>
   truncate_toward_zero (10 ^ 19) = 10 ^ 19 \<and>
   sint (- (2 ^ 63) :: 64 word) = - (2 ^ 63)"
  by (simp add: loader_defs example_defs truncate_examples in_int64_range_def)

text \<open>
  Claim C4. The table \<open>data_with_infinite_count\<close> has a row with a missing count (SpeciesA),
  a row whose count is \<^verbatim>\<open>inf\<close> (SpeciesB) and a valid row (SpeciesC). \<^verbatim>\<open>read_data\<close> does
  not drop the first row and return the rest: the cast of line 78 raises on the infinity
  and the process ends with code 1. Without the row of SpeciesB the same call drops the row
  of SpeciesA and returns the row of SpeciesC: what becomes of a row depends on another row.
\<close>

theorem infinite_count_ends_the_run:
  "read_data (parsing_to data_with_infinite_count) StringIO =
     ([CallReadCsv StringIO, LogError (ErrorWhileReading IntCastingNaNError)], Exit 1) \<and>
   returned_cells (snd (read_data
     (parsing_to (data_with_infinite_count
        \<lparr>rows := [csv_row (Str ''SpeciesA'') (Str ''Firmicutes'') NaN,
                  csv_row (Str ''SpeciesC'') (Str ''Bacteroidetes'') (Num (F64 200))]\<rparr>))
     StringIO)) =
     Return [(Str ''SpeciesC'', Str ''Bacteroidetes'', Num (I64 200))]"
  by (simp add: loader_defs example_defs truncate_examples in_int64_range_def)

text \<open>The cleaning reads the three required cells of a row and nothing else of it.\<close>

lemma valid_row_cells: "cells r2 = cells r \<Longrightarrow> valid_row e r2 = valid_row e r"
  by (simp add: cells_def valid_row_def)

lemma list_all2_filter_same:
  "list_all2 R xs ys \<Longrightarrow> (\<And>x y. R x y \<Longrightarrow> P x = Q y) \<Longrightarrow> list_all2 R (filter P xs) (filter Q ys)"
  by (induction rule: list_all2_induct) auto

lemma astype_count_cells:
  "list_all2 (\<lambda>a b. cells a = cells b) xs ys \<Longrightarrow>
   rel_sum (=) (list_all2 (\<lambda>a b. cells a = cells b)) (astype_count e xs) (astype_count e ys)"
proof (induction rule: list_all2_induct)
  case Nil
  then show ?case by simp
next
  case (Cons x xs y ys)
  from Cons.hyps(1) have "x ''count'' = y ''count''" by (simp add: cells_def)
  with Cons show ?case
    by (cases "astype_int e (y ''count'')"; cases "astype_count e xs"; cases "astype_count e ys")
       (auto simp: cells_def)
qed

lemma clean_cells:
  assumes "map cells (rows df2) = map cells (rows df)"
  shows "rel_sum (=) (\<lambda>a b. map cells (rows a) = map cells (rows b)) (clean e df2) (clean e df)"
proof -
  let ?R = "\<lambda>a b. cells a = cells b"
  let ?upd = "\<lambda>r. r(''count'' := to_numeric e (r ''count''))"
  from assms have "list_all2 ?R (rows df2) (rows df)"
    by (simp add: list_all2_conv_all_nth list_eq_iff_nth_eq)
  then have "list_all2 ?R (filter (valid_row e) (rows df2)) (filter (valid_row e) (rows df))"
    by (rule list_all2_filter_same) (rule valid_row_cells)
  then have "list_all2 (\<lambda>a b. cells (?upd a) = cells (?upd b))
       (filter (valid_row e) (rows df2)) (filter (valid_row e) (rows df))"
    by (rule list_all2_mono) (simp add: cells_def)
  then have "list_all2 ?R (map ?upd (filter (valid_row e) (rows df2)))
       (map ?upd (filter (valid_row e) (rows df)))"
    by (simp add: list_all2_map1 list_all2_map2)
  from astype_count_cells [OF this, of e]
  show ?thesis
    by (cases "astype_count e (map ?upd (filter (valid_row e) (rows df2)))";
        cases "astype_count e (map ?upd (filter (valid_row e) (rows df)))")
       (auto simp: clean_def Let_def clean_rows_before_cast list_all2_conv_all_nth list_eq_iff_nth_eq)
qed

text \<open>The cleaning does not call \<^verbatim>\<open>read_csv\<close>.\<close>

lemma to_numeric_read_csv [simp]: "to_numeric (e\<lparr>read_csv := f\<rparr>) c = to_numeric e c"
  by (cases c) simp_all

lemma astype_int_read_csv [simp]: "astype_int (e\<lparr>read_csv := f\<rparr>) c = astype_int e c"
  by (induction e c rule: astype_int.induct) simp_all

lemma astype_count_read_csv [simp]: "astype_count (e\<lparr>read_csv := f\<rparr>) rs = astype_count e rs"
  by (induction rs) (simp_all split: sum.splits)

lemma clean_read_csv [simp]: "clean (e\<lparr>read_csv := f\<rparr>) df = clean e df"
  by (simp add: clean_def coerce_count_def)

lemma source_found_read_csv [simp]: "source_found (e\<lparr>read_csv := f\<rparr>) src = source_found e src"
  by (cases src) simp_all

text \<open>
  Claim C5. Let the source be found and parsed to a table. If one of the columns
  \<^verbatim>\<open>species\<close>, \<^verbatim>\<open>phylum\<close>, \<^verbatim>\<open>count\<close> is absent, \<^verbatim>\<open>read_data\<close> logs "Invalid file
  format" and ends the process with exit code 1; the result is this one whatever the rows
  of the table hold (also rows on which the cleaning would raise), so no row is cleaned
  before the check. If the three columns are present there is no schema failure, and other
  columns are ignored: a parsed table with the same cells in the three required columns,
  whatever its other columns, gives the same trace and the same required cells in the
  returned rows.
\<close>

theorem schema_check:
  assumes "source_found e src" and "read_csv e src = Inr df"
  shows "(\<not> set required_columns \<subseteq> set (columns df) \<longrightarrow>
            read_data e src = ([CallReadCsv src, LogError InvalidFileFormat], Exit 1)) \<and>
         (set required_columns \<subseteq> set (columns df) \<longrightarrow>
            LogError InvalidFileFormat \<notin> set (fst (read_data e src)) \<and>
            (\<forall>df2 :: frame. set required_columns \<subseteq> set (columns df2) \<and>
                   map cells (rows df2) = map cells (rows df) \<longrightarrow>
               fst (read_data (e\<lparr>read_csv := \<lambda>s. Inr df2\<rparr>) src) = fst (read_data e src) \<and>
               returned_cells (snd (read_data (e\<lparr>read_csv := \<lambda>s. Inr df2\<rparr>) src)) =
               returned_cells (snd (read_data e src))))"
proof (intro conjI impI allI)
  assume "\<not> set required_columns \<subseteq> set (columns df)"
  with assms show "read_data e src = ([CallReadCsv src, LogError InvalidFileFormat], Exit 1)"
    by (cases src) (auto simp: read_data_def parse_validate_clean_def)
next
  assume cols: "set required_columns \<subseteq> set (columns df)"
  note run = read_data_clean [OF assms cols]
  show "LogError InvalidFileFormat \<notin> set (fst (read_data e src))"
    by (simp add: run split: sum.splits)
  fix df2 :: frame
  assume "set required_columns \<subseteq> set (columns df2) \<and> map cells (rows df2) = map cells (rows df)"
  then have cols2: "set required_columns \<subseteq> set (columns df2)"
    and same: "map cells (rows df2) = map cells (rows df)" by simp_all
  have "source_found (e\<lparr>read_csv := \<lambda>s. Inr df2\<rparr>) src" using assms(1) by simp
  moreover have "read_csv (e\<lparr>read_csv := \<lambda>s. Inr df2\<rparr>) src = Inr df2" by simp
  ultimately have run2: "read_data (e\<lparr>read_csv := \<lambda>s. Inr df2\<rparr>) src =
     (case clean e df2 of
        Inl x \<Rightarrow> ([CallReadCsv src, LogError (ErrorWhileReading x)], Exit 1)
      | Inr df' \<Rightarrow> ([CallReadCsv src, LogInfo DataLoaded], Return df'))"
    using cols2 by (simp add: read_data_clean)
  from clean_cells [OF same, of e]
  show "fst (read_data (e\<lparr>read_csv := \<lambda>s. Inr df2\<rparr>) src) = fst (read_data e src)"
    and "returned_cells (snd (read_data (e\<lparr>read_csv := \<lambda>s. Inr df2\<rparr>) src)) =
         returned_cells (snd (read_data e src))"
    by (cases "clean e df2"; cases "clean e df"; simp add: run run2)+
qed


text \<open>
  The table of the tests without the column \<^verbatim>\<open>phylum\<close>, and a table with the further
  column \<^verbatim>\<open>habitat\<close>, which is cleaned like the same table without that column.
\<close>

theorem schema_check_witness:
  "source_found (parsing_to invalid_data_missing_columns) StringIO \<and>
   \<not> set required_columns \<subseteq> set (columns invalid_data_missing_columns) \<and>
   read_data (parsing_to invalid_data_missing_columns) StringIO =
     ([CallReadCsv StringIO, LogError InvalidFileFormat], Exit 1) \<and>
   set required_columns \<subseteq> set (columns data_with_extra_column) \<and>
   LogError InvalidFileFormat \<notin> set (fst (read_data (parsing_to data_with_extra_column) StringIO)) \<and>
   returned_cells (snd (read_data (parsing_to data_with_extra_column) StringIO)) =
     returned_cells (snd (read_data (parsing_to data_without_extra_column) StringIO)) \<and>
   returned_cells (snd (read_data (parsing_to data_without_extra_column) StringIO)) =
     Return [(Str ''SpeciesA'', Str ''Firmicutes'', Num (I64 120)),
             (Str ''SpeciesC'', Str ''Bacteroidetes'', Num (I64 200))]"
proof -
  have found: "source_found (parsing_to df) StringIO" for df by simp
  have parsed: "read_csv (parsing_to df) StringIO = Inr df" for df
    by (simp add: parsing_to_def)
  have missing: "\<not> set required_columns \<subseteq> set (columns invalid_data_missing_columns)"
    by (simp add: required_columns_def invalid_data_missing_columns_def)
  have cols: "set required_columns \<subseteq> set (columns data_with_extra_column)"
    by (simp add: required_columns_def data_with_extra_column_def)
  have cols': "set required_columns \<subseteq> set (columns data_without_extra_column)"
    by (simp add: required_columns_def data_without_extra_column_def)
  have same: "map cells (rows data_without_extra_column) = map cells (rows data_with_extra_column)"
    by (simp add: cells_def csv_row_def data_with_extra_column_def data_without_extra_column_def)
  have env: "(parsing_to data_with_extra_column)\<lparr>read_csv := \<lambda>s. Inr data_without_extra_column\<rparr> =
             parsing_to data_without_extra_column"
    by (simp add: parsing_to_def)
  from schema_check [OF found parsed, of invalid_data_missing_columns] missing
  have exit: "read_data (parsing_to invalid_data_missing_columns) StringIO =
     ([CallReadCsv StringIO, LogError InvalidFileFormat], Exit 1)"
    by blast
  from schema_check [OF found parsed, of data_with_extra_column] cols
  have ok: "LogError InvalidFileFormat \<notin> set (fst (read_data (parsing_to data_with_extra_column) StringIO))"
    and ign: "\<forall>df2 :: frame. set required_columns \<subseteq> set (columns df2) \<and>
                   map cells (rows df2) = map cells (rows data_with_extra_column) \<longrightarrow>
               returned_cells (snd (read_data ((parsing_to data_with_extra_column)\<lparr>read_csv := \<lambda>s. Inr df2\<rparr>) StringIO)) =
               returned_cells (snd (read_data (parsing_to data_with_extra_column) StringIO))"
    by blast+
  from ign cols' same env
  have eq: "returned_cells (snd (read_data (parsing_to data_with_extra_column) StringIO)) =
     returned_cells (snd (read_data (parsing_to data_without_extra_column) StringIO))"
    by metis
  have val: "returned_cells (snd (read_data (parsing_to data_without_extra_column) StringIO)) =
     Return [(Str ''SpeciesA'', Str ''Firmicutes'', Num (I64 120)),
             (Str ''SpeciesC'', Str ''Bacteroidetes'', Num (I64 200))]"
    by (simp add: loader_defs example_defs)
  from found missing exit cols ok eq val show ?thesis by (intro conjI)
qed

section \<open>Properties of the Aggregator\<close>

lemmas aggregator_defs =
  calculate_summary_statistics_def groupby_agg_def round_average_def group_keys_def
  factorize_def group_sum_def group_values_def

text \<open>The keys: each phylum of the table once, in ascending order.\<close>

lemma set_uniques: "set (uniques seen ks) = set seen \<union> set ks"
  by (induction ks arbitrary: seen) auto

lemma distinct_uniques: "distinct seen \<Longrightarrow> distinct (uniques seen ks)"
  by (induction ks arbitrary: seen) auto

lemma set_group_keys: "set (group_keys obs) = set (map phylum obs)"
  by (simp add: group_keys_def factorize_def set_uniques)

lemma distinct_group_keys: "distinct (group_keys obs)"
  by (simp add: group_keys_def factorize_def distinct_uniques)

lemma sorted_group_keys: "sorted_wrt (<) (group_keys obs)"
  by (simp add: strict_sorted_iff distinct_group_keys) (simp add: group_keys_def)

text \<open>The accumulator of a group ends as the \<^verbatim>\<open>int64\<close> sum of the counts of its rows.\<close>

lemma fold_group_sum:
  "fold (\<lambda>ob acc. acc(phylum ob := acc (phylum ob) + count ob)) obs acc k =
   acc k + sum_list (map count (observations_with k obs))"
  by (induction obs arbitrary: acc) (auto simp: add.assoc observations_with_def)

lemma group_sum_eq: "group_sum obs k = sum_list (map count (observations_with k obs))"
  by (simp add: group_sum_def fold_group_sum)

text \<open>Summing group by group is summing the whole table.\<close>

lemma sum_over_groups:
  fixes f :: "'k observation \<Rightarrow> 'a::comm_monoid_add"
  shows "finite K \<Longrightarrow> phylum ` set obs \<subseteq> K \<Longrightarrow>
   (\<Sum>k\<in>K. sum_list (map f (observations_with k obs))) = sum_list (map f obs)"
proof (induction obs)
  case Nil
  then show ?case by (simp add: observations_with_def)
next
  case (Cons ob obs)
  have step: "sum_list (map f (observations_with k (ob # obs))) =
        (if k = phylum ob then f ob else 0) + sum_list (map f (observations_with k obs))" for k
    by (auto simp: observations_with_def)
  from Cons.prems have "phylum ob \<in> K" and "phylum ` set obs \<subseteq> K" by auto
  with Cons.IH Cons.prems(1) show ?case
    by (simp only: step sum.distrib sum.delta) simp
qed

lemma sum_list_over_group_keys:
  fixes f :: "('k::linorder) observation \<Rightarrow> 'a::comm_monoid_add"
  shows "sum_list (map (\<lambda>k. sum_list (map f (observations_with k obs))) (group_keys obs)) =
         sum_list (map f obs)"
proof -
  have "sum_list (map (\<lambda>k. sum_list (map f (observations_with k obs))) (group_keys obs)) =
        (\<Sum>k\<in>set (group_keys obs). sum_list (map f (observations_with k obs)))"
    by (rule sum_list_distinct_conv_sum_set [OF distinct_group_keys])
  also have "\<dots> = sum_list (map f obs)"
    by (rule sum_over_groups) (simp_all add: set_group_keys)
  finally show ?thesis .
qed

text \<open>Where the exact sum is in the \<^verbatim>\<open>int64\<close> range, the \<^verbatim>\<open>int64\<close> sum does not wrap.\<close>

lemma word_of_exact_sum: "word_of_int (exact_sum ws) = sum_list ws"
  by (induction ws) (simp_all add: exact_sum_def)

lemma sint_sum_in_range:
  "in_int64_range (exact_sum ws) \<Longrightarrow> sint (sum_list ws) = exact_sum ws"
  unfolding word_of_exact_sum [symmetric] by (rule sint_word_of_int_in_range)

lemma calculate_summary_statistics_rows:
  "calculate_summary_statistics e obs =
     ([LogInfo SummaryCalculated], Return (round_average e (groupby_agg e obs)))"
  by (simp add: calculate_summary_statistics_def)

lemma phylum_summary: "map phylum (round_average e (groupby_agg e obs)) = group_keys obs"
  by (simp add: round_average_def groupby_agg_def comp_def)

lemma total_summary:
  "map total_species_count (round_average e (groupby_agg e obs)) =
   map (\<lambda>k. sum_list (map count (observations_with k obs))) (group_keys obs)"
  by (simp add: round_average_def groupby_agg_def comp_def group_sum_eq)

lemma summary_row_total:
  "r \<in> set (round_average e (groupby_agg e obs)) \<Longrightarrow>
   total_species_count r = sum_list (map count (observations_with (phylum r) obs))"
  by (auto simp: round_average_def groupby_agg_def group_sum_eq)

lemma exact_sum_totals:
  assumes "\<forall>r \<in> set (round_average e (groupby_agg e obs)).
             in_int64_range (exact_sum (map count (observations_with (phylum r) obs)))"
  shows "exact_sum (map total_species_count (round_average e (groupby_agg e obs))) =
         exact_sum (map count obs)"
proof -
  have keys: "in_int64_range (exact_sum (map count (observations_with k obs)))"
    if "k \<in> set (group_keys obs)" for k
  proof -
    from that obtain r where "r \<in> set (round_average e (groupby_agg e obs))" and "phylum r = k"
      unfolding phylum_summary [of e obs, symmetric] by auto
    with assms show ?thesis by auto
  qed
  have "exact_sum (map total_species_count (round_average e (groupby_agg e obs))) =
        sum_list (map (\<lambda>k. sint (sum_list (map count (observations_with k obs)))) (group_keys obs))"
    by (simp add: exact_sum_def total_summary comp_def)
  also have "\<dots> = sum_list (map (\<lambda>k. sum_list (map (\<lambda>ob. sint (count ob)) (observations_with k obs))) (group_keys obs))"
    by (rule arg_cong [of _ _ sum_list], rule map_cong [OF refl])
       (simp add: sint_sum_in_range [OF keys] exact_sum_def comp_def)
  also have "\<dots> = sum_list (map (\<lambda>ob. sint (count ob)) obs)"
    by (rule sum_list_over_group_keys)
  finally show ?thesis by (simp add: exact_sum_def comp_def)
qed

text \<open>
  Claim C1, amended. For every cleaned table, \<^verbatim>\<open>calculate_summary_statistics\<close> returns a
  summary table that has exactly one row per distinct phylum of the table (its phyla are
  pairwise distinct and are the phyla that occur). The \<^verbatim>\<open>total_species_count\<close> of each row
  is the sum of \<^verbatim>\<open>count\<close> over the observations with that phylum as pandas computes it, in
  \<^verbatim>\<open>int64\<close>, that is modulo \<open>2 ^ 64\<close>; and the \<^verbatim>\<open>int64\<close> sum of the totals is the \<^verbatim>\<open>int64\<close>
  sum of \<^verbatim>\<open>count\<close> over the table. Where the integer sum of a group lies in the \<^verbatim>\<open>int64\<close>
  range, the total of its row is that integer sum; where that is so for every group, the
  integer sum of the totals is the integer sum of all counts.
\<close>

theorem summary_is_group_by_sum:
  "\<exists>summary. calculate_summary_statistics e obs = ([LogInfo SummaryCalculated], Return summary) \<and>
     distinct (map phylum summary) \<and>
     set (map phylum summary) = set (map phylum obs) \<and>
     (\<forall>r \<in> set summary.
        total_species_count r = sum_list (map count (observations_with (phylum r) obs))) \<and>
     sum_list (map total_species_count summary) = sum_list (map count obs) \<and>
     (\<forall>r \<in> set summary.
        in_int64_range (exact_sum (map count (observations_with (phylum r) obs))) \<longrightarrow>
        sint (total_species_count r) = exact_sum (map count (observations_with (phylum r) obs))) \<and>
     ((\<forall>r \<in> set summary.
         in_int64_range (exact_sum (map count (observations_with (phylum r) obs)))) \<longrightarrow>
      exact_sum (map total_species_count summary) = exact_sum (map count obs))"
proof (intro exI conjI ballI impI)
  show "calculate_summary_statistics e obs =
     ([LogInfo SummaryCalculated], Return (round_average e (groupby_agg e obs)))"
    by (rule calculate_summary_statistics_rows)
  show "distinct (map phylum (round_average e (groupby_agg e obs)))"
    by (simp only: phylum_summary distinct_group_keys)
  show "set (map phylum (round_average e (groupby_agg e obs))) = set (map phylum obs)"
    by (simp only: phylum_summary set_group_keys)
  show "sum_list (map total_species_count (round_average e (groupby_agg e obs))) =
        sum_list (map count obs)"
    by (simp only: total_summary sum_list_over_group_keys)
next
  fix r assume "r \<in> set (round_average e (groupby_agg e obs))"
  then show "total_species_count r = sum_list (map count (observations_with (phylum r) obs))"
    by (rule summary_row_total)
next
  fix r
  assume "r \<in> set (round_average e (groupby_agg e obs))"
    and "in_int64_range (exact_sum (map count (observations_with (phylum r) obs)))"
  then show "sint (total_species_count r) =
             exact_sum (map count (observations_with (phylum r) obs))"
    by (simp only: summary_row_total sint_sum_in_range)
next
  assume "\<forall>r \<in> set (round_average e (groupby_agg e obs)).
            in_int64_range (exact_sum (map count (observations_with (phylum r) obs)))"
  then show "exact_sum (map total_species_count (round_average e (groupby_agg e obs))) =
             exact_sum (map count obs)"
    by (rule exact_sum_totals)
qed

text \<open>
  The cleaned table of the tests' \<open>valid_data\<close>: 250 for Bacteroidetes, 200 for Firmicutes,
  300 for Proteobacteria, 750 in all.
\<close>

theorem summary_is_group_by_sum_witness:
  "\<exists>summary. calculate_summary_statistics example_env valid_observations =
       ([LogInfo SummaryCalculated], Return summary) \<and>
     map (\<lambda>r. (phylum r, sint (total_species_count r))) summary =
       [(''Bacteroidetes'', 250), (''Firmicutes'', 200), (''Proteobacteria'', 300)] \<and>
     list_all (\<lambda>r. in_int64_range (exact_sum (map count (observations_with (phylum r) valid_observations))))
       summary \<and>
     exact_sum (map total_species_count summary) = 750 \<and>
     exact_sum (map count valid_observations) = 750"
proof -
  from summary_is_group_by_sum [of example_env valid_observations]
  obtain summary where
    run: "calculate_summary_statistics example_env valid_observations =
            ([LogInfo SummaryCalculated], Return summary)"
    and exact: "(\<forall>r \<in> set summary.
         in_int64_range (exact_sum (map count (observations_with (phylum r) valid_observations)))) \<longrightarrow>
      exact_sum (map total_species_count summary) = exact_sum (map count valid_observations)"
    by (elim exE conjE)
  have val: "summary = round_average example_env (groupby_agg example_env valid_observations)"
    using run by (simp add: calculate_summary_statistics_def)
  have rows: "map (\<lambda>r. (phylum r, sint (total_species_count r))) summary =
       [(''Bacteroidetes'', 250), (''Firmicutes'', 200), (''Proteobacteria'', 300)]"
    unfolding val by (simp add: aggregator_defs valid_observations_def)
  have range: "list_all (\<lambda>r. in_int64_range (exact_sum (map count (observations_with (phylum r) valid_observations))))
       summary"
    unfolding val
    by (simp add: aggregator_defs valid_observations_def observations_with_def exact_sum_def
        in_int64_range_def)
  have total: "exact_sum (map count valid_observations) = 750"
    by (simp add: valid_observations_def exact_sum_def)
  from exact range have "exact_sum (map total_species_count summary) = exact_sum (map count valid_observations)"
    by (simp add: list_all_iff)
  with total have "exact_sum (map total_species_count summary) = 750" by simp
  with run rows range total show ?thesis
    by (intro exI [of _ summary] conjI)
qed

lemma overflowing_summary:
  "round_average example_env (groupby_agg example_env overflowing_observations) =
     [\<lparr>phylum = ''Firmicutes'', total_species_count = - (2 ^ 63),
       average_species_count = 2 ^ 62\<rparr>]"
  by (simp add: aggregator_defs overflowing_observations_def example_env_def exact_mean_def
      exact_sum_def exact_round2_def)

text \<open>
  As the claim is stated, with sums of integers, it fails where the sum of a group leaves
  the \<^verbatim>\<open>int64\<close> range. The two observations of \<open>overflowing_observations\<close> have the counts
  \<open>2 ^ 63 - 1\<close> and 1, whose sum is \<open>2 ^ 63\<close>; the sum of pandas wraps around, and the
  total of the one summary row is \<open>- (2 ^ 63)\<close>.
\<close>

theorem summary_is_group_by_sum_counterexample:
  "calculate_summary_statistics example_env overflowing_observations =
     ([LogInfo SummaryCalculated],
      Return [\<lparr>phylum = ''Firmicutes'', total_species_count = - (2 ^ 63),
               average_species_count = 2 ^ 62\<rparr>]) \<and>
   map sint (map count overflowing_observations) = [2 ^ 63 - 1, 1] \<and>
   sint (- (2 ^ 63) :: 64 word) = - (2 ^ 63) \<and>
   exact_sum (map count overflowing_observations) = 2 ^ 63"
  by (simp add: calculate_summary_statistics_rows overflowing_summary)
     (simp add: overflowing_observations_def exact_sum_def)




text \<open>
  Claim C7. On the empty cleaned table \<^verbatim>\<open>calculate_summary_statistics\<close> returns the empty
  summary table: it logs its success, raises nothing and does not end the process.
\<close>

theorem empty_table_empty_summary:
  "calculate_summary_statistics e [] = ([LogInfo SummaryCalculated], Return [])"
  by (simp add: aggregator_defs)

text \<open>
  The order \<open><\<close> on \<open>string\<close> is the lexicographic order, characters compared by their
  codes.
\<close>

lemma string_less_is_lexicographic:
  "(s :: string) < t \<longleftrightarrow> (s, t) \<in> lexord {(a, b). (of_char a :: nat) < of_char b}"
  by (simp add: list_less_def less_char_def)

text \<open>The keys of the tests' table in first-seen order, and as the summary has them.\<close>

lemma first_seen_valid:
  "factorize (map phylum valid_observations) = [''Firmicutes'', ''Bacteroidetes'', ''Proteobacteria'']"
  by (simp add: factorize_def valid_observations_def)

lemma group_keys_valid:
  "group_keys valid_observations = [''Bacteroidetes'', ''Firmicutes'', ''Proteobacteria'']"
  by (simp add: group_keys_def factorize_def valid_observations_def)

text \<open>The keys of the groups are the distinct phyla of the table, sorted.\<close>

lemma group_keys_sorted_distinct: "group_keys obs = sort (remdups (map phylum obs))"
proof (rule sorted_distinct_set_unique)
  show "sorted (group_keys obs)" by (simp add: group_keys_def)
  show "distinct (group_keys obs)" by (rule distinct_group_keys)
  show "sorted (sort (remdups (map phylum obs)))" by simp
  show "distinct (sort (remdups (map phylum obs)))" by simp
  show "set (group_keys obs) = set (sort (remdups (map phylum obs)))"
    by (simp add: set_group_keys)
qed

text \<open>
  Claim C9, amended. For every cleaned table, the rows of the summary that
  \<^verbatim>\<open>calculate_summary_statistics\<close> returns are the distinct phyla of the table in ascending
  order of the phylum values, as pandas orders them: in lexicographic order where the phylum
  column is text, by value where it is a column of integers; strictly ascending, whatever
  the order of the input. That is not the first-seen order: for the table of the tests the
  first-seen order is Firmicutes, Bacteroidetes, Proteobacteria and the summary that the call
  returns has Bacteroidetes first. \<^verbatim>\<open>save_results\<close> writes the records of the summary, and
  \<^verbatim>\<open>generate_bar_chart\<close> draws its bars, in that same sorted order.
\<close>

theorem summary_sorted_by_phylum:
  "\<exists>summary. calculate_summary_statistics e obs = ([LogInfo SummaryCalculated], Return summary) \<and>
     map phylum summary = sort (remdups (map phylum obs)) \<and>
     sorted_wrt (<) (map phylum summary) \<and>
     (can_write e output_file \<longrightarrow>
        (\<exists>files'. save_results e files summary output_file =
             (files', [LogInfo (ResultsSaved output_file)], Return ()) \<and>
           map_option csv_phyla (files' output_file) = Some (sort (remdups (map phylum obs))))) \<and>
     (can_write e output_image \<longrightarrow>
        (\<exists>files'. generate_bar_chart e files summary output_image =
             (files', [LogInfo (ChartSaved output_image)], Return ()) \<and>
           map_option chart_labels (files' output_image) = Some (sort (remdups (map phylum obs))))) \<and>
     (\<exists>first. calculate_summary_statistics e valid_observations =
          ([LogInfo SummaryCalculated], Return first) \<and>
        map phylum first \<noteq> factorize (map phylum valid_observations))"
proof -
  let ?summary = "round_average e (groupby_agg e obs)"
  have keys: "map phylum ?summary = sort (remdups (map phylum obs))"
    by (simp only: phylum_summary group_keys_sorted_distinct)
  have run: "calculate_summary_statistics e obs = ([LogInfo SummaryCalculated], Return ?summary)"
    by (rule calculate_summary_statistics_rows)
  have sorted: "sorted_wrt (<) (map phylum ?summary)"
    by (simp only: phylum_summary sorted_group_keys)
  have csv: "can_write e output_file \<longrightarrow>
        (\<exists>files'. save_results e files ?summary output_file =
             (files', [LogInfo (ResultsSaved output_file)], Return ()) \<and>
           map_option csv_phyla (files' output_file) = Some (sort (remdups (map phylum obs))))"
    using keys by (simp add: save_results_def to_csv_def csv_phyla_def)
  have chart: "can_write e output_image \<longrightarrow>
        (\<exists>files'. generate_bar_chart e files ?summary output_image =
             (files', [LogInfo (ChartSaved output_image)], Return ()) \<and>
           map_option chart_labels (files' output_image) = Some (sort (remdups (map phylum obs))))"
  proof -
    have "chart_labels (bar ?summary) = map phylum ?summary" by (simp add: bar_def)
    with keys have "chart_labels (bar ?summary) = sort (remdups (map phylum obs))" by simp
    then show ?thesis by (simp add: generate_bar_chart_def)
  qed
  have first: "\<exists>first. calculate_summary_statistics e valid_observations =
          ([LogInfo SummaryCalculated], Return first) \<and>
        map phylum first \<noteq> factorize (map phylum valid_observations)"
    by (rule exI [of _ "round_average e (groupby_agg e valid_observations)"])
       (simp add: calculate_summary_statistics_rows phylum_summary first_seen_valid group_keys_valid)
  from run keys sorted csv chart first show ?thesis by (intro exI [of _ ?summary] conjI)
qed

text \<open>
  The table of the tests through the three calls of \<^verbatim>\<open>main\<close>, with the default file names;
  and the table with the phyla 10 and 9, whose summary has 9 first.
\<close>

theorem summary_sorted_by_phylum_witness:
  "can_write example_env ''phylum_summary.csv'' \<and>
   can_write example_env ''phylum_species_count.png'' \<and>
   (\<exists>summary files1 files2.
      calculate_summary_statistics example_env valid_observations =
        ([LogInfo SummaryCalculated], Return summary) \<and>
      map phylum summary = [''Bacteroidetes'', ''Firmicutes'', ''Proteobacteria''] \<and>
      save_results example_env Map.empty summary ''phylum_summary.csv'' =
        (files1, [LogInfo (ResultsSaved ''phylum_summary.csv'')], Return ()) \<and>
      map_option csv_phyla (files1 ''phylum_summary.csv'') =
        Some [''Bacteroidetes'', ''Firmicutes'', ''Proteobacteria''] \<and>
      generate_bar_chart example_env files1 summary ''phylum_species_count.png'' =
        (files2, [LogInfo (ChartSaved ''phylum_species_count.png'')], Return ()) \<and>
      map_option chart_labels (files2 ''phylum_species_count.png'') =
        Some [''Bacteroidetes'', ''Firmicutes'', ''Proteobacteria'']) \<and>
   (\<exists>summary. calculate_summary_statistics example_env numeric_phylum_observations =
        ([LogInfo SummaryCalculated], Return summary) \<and>
      map phylum summary = [9, 10])"
proof -
  have w1: "can_write example_env ''phylum_summary.csv''"
    and w2: "can_write example_env ''phylum_species_count.png''"
    by (simp_all add: example_env_def)
  have sorted_valid: "sort (remdups (map phylum valid_observations)) =
      [''Bacteroidetes'', ''Firmicutes'', ''Proteobacteria'']"
    by (simp add: valid_observations_def)
  have sorted_numeric: "sort (remdups (map phylum numeric_phylum_observations)) = [9, 10]"
    by (simp add: numeric_phylum_observations_def)
  from summary_sorted_by_phylum
    [of example_env valid_observations "''phylum_summary.csv''" Map.empty "''phylum_species_count.png''"]
  obtain summary where
    run: "calculate_summary_statistics example_env valid_observations =
        ([LogInfo SummaryCalculated], Return summary)"
    and keys: "map phylum summary = sort (remdups (map phylum valid_observations))"
    and csv: "can_write example_env ''phylum_summary.csv'' \<longrightarrow>
        (\<exists>files'. save_results example_env Map.empty summary ''phylum_summary.csv'' =
             (files', [LogInfo (ResultsSaved ''phylum_summary.csv'')], Return ()) \<and>
           map_option csv_phyla (files' ''phylum_summary.csv'') =
             Some (sort (remdups (map phylum valid_observations))))"
    by (elim exE conjE)
  from csv w1 obtain files1 where
    saved: "save_results example_env Map.empty summary ''phylum_summary.csv'' =
             (files1, [LogInfo (ResultsSaved ''phylum_summary.csv'')], Return ())"
    and csv_keys: "map_option csv_phyla (files1 ''phylum_summary.csv'') =
             Some (sort (remdups (map phylum valid_observations)))"
    by blast
  from summary_sorted_by_phylum
    [of example_env valid_observations "''phylum_summary.csv''" files1 "''phylum_species_count.png''"]
  obtain summary' where
    run': "calculate_summary_statistics example_env valid_observations =
        ([LogInfo SummaryCalculated], Return summary')"
    and chart: "can_write example_env ''phylum_species_count.png'' \<longrightarrow>
        (\<exists>files'. generate_bar_chart example_env files1 summary' ''phylum_species_count.png'' =
             (files', [LogInfo (ChartSaved ''phylum_species_count.png'')], Return ()) \<and>
           map_option chart_labels (files' ''phylum_species_count.png'') =
             Some (sort (remdups (map phylum valid_observations))))"
    by (elim exE conjE)
  from run run' have same: "summary' = summary" by simp
  from chart w2 obtain files2 where
    drawn: "generate_bar_chart example_env files1 summary ''phylum_species_count.png'' =
             (files2, [LogInfo (ChartSaved ''phylum_species_count.png'')], Return ())"
    and chart_keys: "map_option chart_labels (files2 ''phylum_species_count.png'') =
             Some (sort (remdups (map phylum valid_observations)))"
    unfolding same by blast
  from summary_sorted_by_phylum
    [of example_env numeric_phylum_observations "''phylum_summary.csv''" Map.empty "''phylum_species_count.png''"]
  obtain nsummary where
    nrun: "calculate_summary_statistics example_env numeric_phylum_observations =
        ([LogInfo SummaryCalculated], Return nsummary)"
    and nkeys: "map phylum nsummary = sort (remdups (map phylum numeric_phylum_observations))"
    by (elim exE conjE)
  have strings: "\<exists>summary files1 files2.
      calculate_summary_statistics example_env valid_observations =
        ([LogInfo SummaryCalculated], Return summary) \<and>
      map phylum summary = [''Bacteroidetes'', ''Firmicutes'', ''Proteobacteria''] \<and>
      save_results example_env Map.empty summary ''phylum_summary.csv'' =
        (files1, [LogInfo (ResultsSaved ''phylum_summary.csv'')], Return ()) \<and>
      map_option csv_phyla (files1 ''phylum_summary.csv'') =
        Some [''Bacteroidetes'', ''Firmicutes'', ''Proteobacteria''] \<and>
      generate_bar_chart example_env files1 summary ''phylum_species_count.png'' =
        (files2, [LogInfo (ChartSaved ''phylum_species_count.png'')], Return ()) \<and>
      map_option chart_labels (files2 ''phylum_species_count.png'') =
        Some [''Bacteroidetes'', ''Firmicutes'', ''Proteobacteria'']"
    using run keys saved csv_keys drawn chart_keys unfolding sorted_valid
    by (intro exI [of _ summary] exI [of _ files1] exI [of _ files2] conjI)
  have numeric: "\<exists>summary. calculate_summary_statistics example_env numeric_phylum_observations =
        ([LogInfo SummaryCalculated], Return summary) \<and>
      map phylum summary = [9, 10]"
    using nrun nkeys unfolding sorted_numeric by (intro exI [of _ nsummary] conjI)
  from w1 w2 strings numeric show ?thesis by (intro conjI)
qed

text \<open>
  As the claim is stated, in the lexicographic order of the phylum string, it fails for a
  file whose phyla are all integers. \<^verbatim>\<open>read_csv\<close> parses the phylum column of
  \<open>data_with_numeric_phylum\<close> as \<^verbatim>\<open>int64\<close>, \<^verbatim>\<open>read_data\<close> returns both rows, and the summary
  has the row of 9 before the row of 10, while as strings \<open>''10''\<close> is less than \<open>''9''\<close>.
\<close>

theorem summary_sorted_by_phylum_counterexample:
  "returned_cells (snd (read_data (parsing_to data_with_numeric_phylum) StringIO)) =
     Return [(Str ''SpeciesA'', Num (I64 10), Num (I64 5)),
             (Str ''SpeciesB'', Num (I64 9), Num (I64 7))] \<and>
   map numeric_observation_of (rows data_with_numeric_phylum) =
     map Some numeric_phylum_observations \<and>
   calculate_summary_statistics example_env numeric_phylum_observations =
     ([LogInfo SummaryCalculated],
      Return [\<lparr>phylum = 9, total_species_count = 7, average_species_count = 7\<rparr>,
              \<lparr>phylum = 10, total_species_count = 5, average_species_count = 5\<rparr>]) \<and>
   phylum_string 9 = ''9'' \<and> phylum_string 10 = ''10'' \<and>
   (''10'' :: string) < ''9''"
  by (simp add: loader_defs example_defs aggregator_defs numeric_phylum_observations_def
      numeric_observation_of_def phylum_string_def exact_mean_def exact_sum_def exact_round2_def)

text \<open>What the two writers of the Sink store when the write succeeds.\<close>

lemma save_results_writes:
  "can_write e p \<Longrightarrow> save_results e files df p =
     (files(p \<mapsto> to_csv df), [LogInfo (ResultsSaved p)], Return ())"
  by (simp add: save_results_def)

lemma generate_bar_chart_writes:
  "can_write e p \<Longrightarrow> generate_bar_chart e files df p =
     (files(p \<mapsto> bar df), [LogInfo (ChartSaved p)], Return ())"
  by (simp add: generate_bar_chart_def)





section \<open>The argument of \<^verbatim>\<open>calculate_summary_statistics\<close> is not changed\<close>

lemma heap_call_on_cleaned_table:
  assumes "df < length h" and "h ! df = CleanedTable obs"
  shows "calculate_summary_statistics_heap e h df =
     (h @ [SummaryTable (round_average e (groupby_agg e obs))],
      [LogInfo SummaryCalculated], Return (length h))"
  using assms by (simp add: calculate_summary_statistics_heap_def Let_def)

text \<open>
  Claim C10. \<^verbatim>\<open>calculate_summary_statistics\<close> leaves its argument as it is. Every object
  of the heap before the call is the same after it (the old heap is the new heap without
  what the call allocated), the argument among them. When the call returns, it returns
  the address of an object that did not exist before: the summary is a new table, and the
  rounding of line 105 is written to that table. When the call ends the process, the heap
  is unchanged.
\<close>

theorem argument_table_unchanged:
  "\<exists>h' tr out. calculate_summary_statistics_heap e h df = (h', tr, out) \<and>
     take (length h) h' = h \<and>
     (df < length h \<longrightarrow> h' ! df = h ! df) \<and>
     (out = Return (length h) \<or> out = Exit 1 \<and> h' = h)"
proof (cases "df < length h")
  case False
  then show ?thesis by (simp add: calculate_summary_statistics_heap_def)
next
  case True
  show ?thesis
  proof (cases "h ! df")
    case (SummaryTable rs)
    with True show ?thesis by (simp add: calculate_summary_statistics_heap_def)
  next
    case (CleanedTable obs)
    with True show ?thesis
      by (simp add: calculate_summary_statistics_heap_def Let_def nth_append)
  qed
qed

text \<open>A heap that holds the cleaned table of the tests at address 0.\<close>

theorem argument_table_unchanged_witness:
  "\<exists>h'. calculate_summary_statistics_heap example_env [CleanedTable valid_observations] 0 =
          (h', [LogInfo SummaryCalculated], Return 1) \<and>
        (0::nat) < length [CleanedTable valid_observations] \<and>
        h' ! 0 = CleanedTable valid_observations \<and> length h' = 2"
proof -
  from argument_table_unchanged [of example_env "[CleanedTable valid_observations]" 0]
  obtain h' tr out where
    run: "calculate_summary_statistics_heap example_env [CleanedTable valid_observations] 0 = (h', tr, out)"
    and same: "0 < length [CleanedTable valid_observations] \<longrightarrow> h' ! 0 = [CleanedTable valid_observations] ! 0"
    by (elim exE conjE)
  from run have "tr = [LogInfo SummaryCalculated]" and "out = Return 1" and "length h' = 2"
    by (auto simp: calculate_summary_statistics_heap_def Let_def)
  with run same show ?thesis by simp
qed

end
